theory Spec2Isabelle
  imports Main
begin

unbundle bit_operations_syntax

section \<open>The rules engine of game\_env.py\<close>

text \<open>
  The repository holds two implementations of the rules of Othello and a converter between
  their board representations:
  \<^item> \<open>StateEnv\<close> works on a dense grid, a NumPy array of shape \<open>(size, size, 3)\<close> and type
    \<open>uint8\<close>: channel 0 marks the black coins, channel 1 the white coins, and channel 2 holds
    the player to move in every cell;
  \<^item> \<open>StateEnvBitBoard\<close> works on a list \<open>[black, white, player]\<close> of Python integers, the
    two boards being 64-bit masks;
  \<^item> \<open>StateConverter\<close> translates between the two.

  Python integers are unbounded and are modelled by \<open>int\<close>, with \<open><<\<close> as \<open>push_bit\<close>,
  \<open>>>\<close> as \<open>drop_bit\<close> (both round like Python's), \<open>&\<close> as \<open>AND\<close> and \<open>|\<close> as \<open>OR\<close>.
  An entry of a \<open>uint8\<close> array is a \<open>nat\<close>; where the code adds two such entries the
  wrap-around at 256 is written out.  Exceptions are values of the type \<open>error\<close>.
\<close>

datatype error = IndexError | ValueError | ZeroDivisionError | OverflowError | TypeError

subsection \<open>Directions\<close>

text \<open>
  The keys of the dictionaries \<open>_bit_shift_fn\<close> and \<open>_incorrect_shift_mask\<close> of
  \<open>StateEnvBitBoard.__init__\<close>.  The dense engine walks the same eight directions as
  pairs \<open>[del_row, del_col]\<close>; \<open>deltas\<close> is its list, in the order of the source.
\<close>

datatype direction =
  Left | Right | Top | Bottom | Right_top | Left_top | Right_bottom | Left_bottom

fun incorrect_shift_mask :: "direction \<Rightarrow> int" where
  "incorrect_shift_mask Left = 18374403900871474942"
| "incorrect_shift_mask Right = 9187201950435737471"
| "incorrect_shift_mask Top = 18446744073709551360"
| "incorrect_shift_mask Bottom = 72057594037927935"
| "incorrect_shift_mask Right_top = 9187201950435737344"
| "incorrect_shift_mask Left_top = 18374403900871474688"
| "incorrect_shift_mask Right_bottom = 35887507618889599"
| "incorrect_shift_mask Left_bottom = 71775015237779198"

fun bit_shift_fn :: "direction \<Rightarrow> int \<Rightarrow> int" where
  "bit_shift_fn Left x = push_bit 1 x"
| "bit_shift_fn Right x = drop_bit 1 x"
| "bit_shift_fn Top x = push_bit 8 x"
| "bit_shift_fn Bottom x = drop_bit 8 x"
| "bit_shift_fn Right_top x = push_bit 7 x"
| "bit_shift_fn Left_top x = push_bit 9 x"
| "bit_shift_fn Right_bottom x = drop_bit 9 x"
| "bit_shift_fn Left_bottom x = drop_bit 7 x"

definition directions :: "direction list" where
  "directions = [Left, Right, Top, Bottom, Right_top, Left_top, Right_bottom, Left_bottom]"

fun del_row :: "direction \<Rightarrow> int" where
  "del_row Left_top = -1"
| "del_row Top = -1"
| "del_row Right_top = -1"
| "del_row Left = 0"
| "del_row Right = 0"
| "del_row Left_bottom = 1"
| "del_row Bottom = 1"
| "del_row Right_bottom = 1"

fun del_col :: "direction \<Rightarrow> int" where
  "del_col Left_top = -1"
| "del_col Top = 0"
| "del_col Right_top = 1"
| "del_col Left = -1"
| "del_col Right = 1"
| "del_col Left_bottom = -1"
| "del_col Bottom = 0"
| "del_col Right_bottom = 1"

text \<open>\<open>[[-1,-1], [-1,0], [-1,1], [0,-1], [0,1], [1,-1], [1,0], [1,1]]\<close>\<close>

definition deltas :: "direction list" where
  "deltas = [Left_top, Top, Right_top, Left, Right, Left_bottom, Bottom, Right_bottom]"

subsection \<open>StateEnvBitBoard\<close>

record StateEnvBitBoard =
  bb_size :: int
  bb_max :: int

text \<open>\<open>__init__\<close> ignores its argument: \<open>self._size = 8\<close>.  It raises nothing.\<close>

definition StateEnvBitBoard_init :: "int \<Rightarrow> error + StateEnvBitBoard" where
  "StateEnvBitBoard_init board_size = Inr \<lparr>bb_size = 8, bb_max = 0xFFFFFFFFFFFFFFFF\<rparr>"

text \<open>
  A state is the list \<open>[black, white, player]\<close> with \<open>player\<close> 0 (black) or 1 (white);
  \<open>s[p]\<close> for such a \<open>p\<close> is \<open>board_of s p\<close>.
\<close>

record bitboard =
  black :: int
  white :: int
  player :: int

definition board_of :: "bitboard \<Rightarrow> int \<Rightarrow> int" where
  "board_of s p = (if p = 0 then black s else white s)"

text \<open>
  Every loop of the engine shifts a mask \<open>c\<close> one step in a fixed direction and cuts it with
  the mask of the direction, which lies below \<open>2 ^ 64\<close>.  A left shift raises the lowest set
  bit of \<open>c\<close>, a right shift lowers its value: this is the measure of the loops.
\<close>

definition in_range64 :: "int \<Rightarrow> bool" where
  "in_range64 c = (0 \<le> c \<and> c < 2 ^ 64)"

fun is_push :: "direction \<Rightarrow> bool" where
  "is_push Left = True"
| "is_push Top = True"
| "is_push Right_top = True"
| "is_push Left_top = True"
| "is_push Right = False"
| "is_push Bottom = False"
| "is_push Right_bottom = False"
| "is_push Left_bottom = False"

fun shift_amount :: "direction \<Rightarrow> nat" where
  "shift_amount Left = 1"
| "shift_amount Right = 1"
| "shift_amount Top = 8"
| "shift_amount Bottom = 8"
| "shift_amount Right_top = 7"
| "shift_amount Left_top = 9"
| "shift_amount Right_bottom = 9"
| "shift_amount Left_bottom = 7"

definition sweep_measure :: "direction \<Rightarrow> int \<Rightarrow> nat" where
  "sweep_measure k c =
     (if is_push k then (if c = 0 then 0 else 64 - (LEAST n. bit c n)) else nat c)"

lemma shift_amount_pos: "0 < shift_amount k"
  by (cases k) simp_all

lemma bit_shift_fn_eq:
  "bit_shift_fn k x =
     (if is_push k then push_bit (shift_amount k) x else drop_bit (shift_amount k) x)"
  by (cases k) simp_all

lemma mask_range: "0 \<le> incorrect_shift_mask k \<and> incorrect_shift_mask k < 2 ^ 64"
  by (cases k) simp_all

lemma and_mask_in_range: "in_range64 (x AND incorrect_shift_mask k)"
  using mask_range[of k] AND_upper2[of "incorrect_shift_mask k" x]
  by (simp add: in_range64_def and_nonnegative_int_iff)

lemma ex_bit_of_nonzero: "c \<noteq> (0::int) \<Longrightarrow> \<exists>n. bit c n"
  by (metis bit_eq_iff bit_0_eq bot_apply bot_bool_def)

lemma bit_lt_64: "in_range64 c \<Longrightarrow> bit c n \<Longrightarrow> n < 64"
  unfolding in_range64_def by (metis bit_take_bit_iff take_bit_int_eq_self)

lemma sweep_measure_less:
  assumes c: "c \<noteq> 0" "in_range64 c"
    and sub: "\<And>n. bit c' n \<Longrightarrow> bit (bit_shift_fn k c AND incorrect_shift_mask k) n"
    and c': "in_range64 c'"
  shows "sweep_measure k c' < sweep_measure k c"
proof (cases "is_push k")
  case True
  define j where "j = shift_amount k"
  have j: "0 < j" "bit_shift_fn k c = push_bit j c"
    using True by (simp_all add: j_def shift_amount_pos bit_shift_fn_eq)
  obtain n where n: "bit c n" using ex_bit_of_nonzero c by blast
  define l where "l = (LEAST n. bit c n)"
  have l: "bit c l" unfolding l_def using n by (rule LeastI)
  have l64: "l < 64" using bit_lt_64 c l by blast
  show ?thesis
  proof (cases "c' = 0")
    case True
    then show ?thesis
      using \<open>is_push k\<close> c l64 by (simp add: sweep_measure_def l_def[symmetric])
  next
    case False
    then obtain n' where "bit c' n'" using ex_bit_of_nonzero by blast
    define l' where "l' = (LEAST n. bit c' n)"
    have l': "bit c' l'" unfolding l'_def using \<open>bit c' n'\<close> by (rule LeastI)
    have "bit (push_bit j c) l'" using sub[OF l'] j by (simp add: bit_and_iff)
    then have "j \<le> l'" "bit c (l' - j)" by (simp_all add: bit_push_bit_iff_int)
    then have "l \<le> l' - j" unfolding l_def by (simp add: Least_le)
    with \<open>j \<le> l'\<close> j have "l < l'" by linarith
    moreover have "l' < 64" using bit_lt_64 c' l' by blast
    ultimately show ?thesis
      using \<open>is_push k\<close> c False
      by (simp add: sweep_measure_def l_def[symmetric] l'_def[symmetric])
  qed
next
  case False
  define j where "j = shift_amount k"
  have j: "0 < j" "bit_shift_fn k c = drop_bit j c"
    using False by (simp_all add: j_def shift_amount_pos bit_shift_fn_eq)
  have cpos: "0 < c" using c by (simp add: in_range64_def)
  have "c' = c' AND drop_bit j c"
    by (rule bit_eqI) (use sub j in \<open>auto simp: bit_and_iff\<close>)
  moreover have "0 \<le> drop_bit j c" using cpos by simp
  ultimately have "c' \<le> drop_bit j c" using AND_upper2[of "drop_bit j c" c'] by simp
  also have "drop_bit j c < c"
    using cpos j by (simp add: drop_bit_eq_div int_div_less_self)
  finally show ?thesis using False cpos by (simp add: sweep_measure_def)
qed

text \<open>
  The sweep of one direction in \<open>_legal_moves_helper\<close>:
  \<^verbatim>\<open>
        while(c):
            m = m | (e & (c << 1) & 18374403900871474942)
            c = board_notp & (c << 1) & 18374403900871474942
  \<close>
  The source repeats these lines for each direction with the shift and the mask of the
  direction written in; \<open>k\<close> selects them.
\<close>

function legal_loop :: "direction \<Rightarrow> int \<Rightarrow> int \<Rightarrow> int \<Rightarrow> int \<Rightarrow> int" where
  "legal_loop k board_notp e c m =
     (if c \<noteq> 0
      then legal_loop k board_notp e
             (board_notp AND bit_shift_fn k c AND incorrect_shift_mask k)
             (m OR (e AND bit_shift_fn k c AND incorrect_shift_mask k))
      else m)"
  by pat_completeness auto
termination
proof (relation "measures [\<lambda>(k, board_notp, e, c, m). if in_range64 c then 0 else 1,
                           \<lambda>(k, board_notp, e, c, m). sweep_measure k c]")
  show "wf (measures [\<lambda>(k, board_notp, e, c, m). if in_range64 c then 0 else 1,
                      \<lambda>(k, board_notp, e, c, m). sweep_measure k c])"
    by simp
next
  fix k :: direction and board_notp e c m :: int
  assume c: "c \<noteq> 0"
  let ?c' = "board_notp AND bit_shift_fn k c AND incorrect_shift_mask k"
  have r: "in_range64 ?c'"
    using and_mask_in_range[of "board_notp AND bit_shift_fn k c" k] by (simp add: and.assoc)
  have "in_range64 c \<Longrightarrow> sweep_measure k ?c' < sweep_measure k c"
    by (rule sweep_measure_less[OF c _ _ r]) (simp_all add: bit_and_iff)
  then show "((k, board_notp, e, ?c', m OR (e AND bit_shift_fn k c AND incorrect_shift_mask k)),
              (k, board_notp, e, c, m))
             \<in> measures [\<lambda>(k, board_notp, e, c, m). if in_range64 c then 0 else 1,
                         \<lambda>(k, board_notp, e, c, m). sweep_measure k c]"
    using r by auto
qed

declare legal_loop.simps [simp del]

text \<open>
  \<open>_legal_moves_helper\<close>: the empty cells \<open>e\<close>, then for each direction the start
  \<open>c = board_notp & (board_p << 1) & mask\<close> and the sweep, all on one accumulator \<open>m\<close>.
\<close>

definition legal_sweep :: "int \<Rightarrow> int \<Rightarrow> int \<Rightarrow> int \<Rightarrow> direction \<Rightarrow> int" where
  "legal_sweep board_p board_notp e m k =
     legal_loop k board_notp e
       (board_notp AND bit_shift_fn k board_p AND incorrect_shift_mask k) m"

definition StateEnvBitBoard_legal_moves_helper :: "StateEnvBitBoard \<Rightarrow> bitboard \<Rightarrow> int" where
  "StateEnvBitBoard_legal_moves_helper env s =
     (let p = player s;
          not_p = (if p \<noteq> 0 then 0 else 1);
          board_p = board_of s p;
          board_notp = board_of s not_p;
          e = bb_max env - (board_p OR board_notp)
      in foldl (legal_sweep board_p board_notp e) 0 directions)"

text \<open>
  One direction of \<open>_get_next_board\<close>:
  \<^verbatim>\<open>
        m = 0
        c = board_notp & (a << 1) & 18374403900871474942
        while(c & board_notp):
            m = m | c
            c = (c << 1) & 18374403900871474942
        if(not(c & board_p)):
            m = 0
        else:
            update_master = update_master | m
  \<close>
\<close>

function capture_loop :: "direction \<Rightarrow> int \<Rightarrow> int \<Rightarrow> int \<Rightarrow> int \<times> int" where
  "capture_loop k board_notp c m =
     (if c AND board_notp \<noteq> 0
      then capture_loop k board_notp (bit_shift_fn k c AND incorrect_shift_mask k) (m OR c)
      else (c, m))"
  by pat_completeness auto
termination
proof (relation "measures [\<lambda>(k, board_notp, c, m). if in_range64 c then 0 else 1,
                           \<lambda>(k, board_notp, c, m). sweep_measure k c]")
  show "wf (measures [\<lambda>(k, board_notp, c, m). if in_range64 c then 0 else 1,
                      \<lambda>(k, board_notp, c, m). sweep_measure k c])"
    by simp
next
  fix k :: direction and board_notp c m :: int
  assume "c AND board_notp \<noteq> 0"
  then have c: "c \<noteq> 0" by auto
  let ?c' = "bit_shift_fn k c AND incorrect_shift_mask k"
  have r: "in_range64 ?c'" by (rule and_mask_in_range)
  have "in_range64 c \<Longrightarrow> sweep_measure k ?c' < sweep_measure k c"
    by (rule sweep_measure_less[OF c _ _ r]) simp_all
  then show "((k, board_notp, ?c', m OR c), (k, board_notp, c, m))
             \<in> measures [\<lambda>(k, board_notp, c, m). if in_range64 c then 0 else 1,
                         \<lambda>(k, board_notp, c, m). sweep_measure k c]"
    using r by auto
qed

declare capture_loop.simps [simp del]

definition capture_sweep :: "int \<Rightarrow> int \<Rightarrow> int \<Rightarrow> int \<Rightarrow> direction \<Rightarrow> int" where
  "capture_sweep board_p board_notp a update_master k =
     (case capture_loop k board_notp
             (board_notp AND bit_shift_fn k a AND incorrect_shift_mask k) 0 of
        (c, m) \<Rightarrow> if c AND board_p = 0 then update_master else update_master OR m)"

definition StateEnvBitBoard_get_next_board :: "StateEnvBitBoard \<Rightarrow> bitboard \<Rightarrow> int \<Rightarrow> bitboard" where
  "StateEnvBitBoard_get_next_board env s a =
     (let p = player s;
          not_p = (if p \<noteq> 0 then 0 else 1);
          board_p = board_of s p;
          board_notp = board_of s not_p;
          update_master = foldl (capture_sweep board_p board_notp a) 0 directions;
          board_p = board_p OR update_master OR a;
          board_notp = board_notp - update_master
      in if p = 0 then \<lparr>black = board_p, white = board_notp, player = p\<rparr>
         else \<lparr>black = board_notp, white = board_p, player = p\<rparr>)"

text \<open>\<open>reset\<close> returns \<open>[starter_board, legal_moves, player]\<close>.\<close>

definition StateEnvBitBoard_reset :: "StateEnvBitBoard \<Rightarrow> bitboard \<times> int \<times> int" where
  "StateEnvBitBoard_reset env =
     (let starter_b = 34628173824;
          starter_w = 68853694464;
          player = 1;
          starter_board = \<lparr>black = starter_b, white = starter_w, player = player\<rparr>;
          legal_moves = StateEnvBitBoard_legal_moves_helper env starter_board
      in (starter_board, legal_moves, player))"

text \<open>\<open>step\<close> returns \<open>(s_next, legal_moves, s_next[2], done)\<close>.\<close>

definition StateEnvBitBoard_step ::
  "StateEnvBitBoard \<Rightarrow> bitboard \<Rightarrow> int \<Rightarrow> bitboard \<times> int \<times> int \<times> int" where
  "StateEnvBitBoard_step env s a =
     (let s_next = StateEnvBitBoard_get_next_board env s a;
          s_next = s_next\<lparr>player := (if player s \<noteq> 0 then 0 else 1)\<rparr>;
          legal_moves = StateEnvBitBoard_legal_moves_helper env s_next
      in if legal_moves = 0 then
           (if black s_next OR white s_next = bb_max env then
              (s_next, legal_moves, player s_next, 1)
            else
              (let s_next = s_next\<lparr>player := (if player s_next \<noteq> 0 then 0 else 1)\<rparr>;
                   legal_moves = StateEnvBitBoard_legal_moves_helper env s_next
               in if legal_moves = 0 then (s_next, legal_moves, player s_next, 1)
                  else (s_next, legal_moves, player s_next, 0)))
         else (s_next, legal_moves, player s_next, 0))"

text \<open>
  \<open>count_coins\<close> counts the set bits of each board with
  \<^verbatim>\<open>
        while(t):
            b += (t & 1)
            t = t >> 1
  \<close>
  which never ends on a negative \<open>t\<close> (\<open>-1 >> 1\<close> is \<open>-1\<close>): not returning is \<open>None\<close>.
\<close>

partial_function (option) count_loop :: "int \<Rightarrow> int \<Rightarrow> int option" where
  "count_loop t n = (if t \<noteq> 0 then count_loop (drop_bit 1 t) (n + (t AND 1)) else Some n)"

declare count_loop.simps [code]

definition StateEnvBitBoard_count_coins :: "StateEnvBitBoard \<Rightarrow> bitboard \<Rightarrow> (int \<times> int) option" where
  "StateEnvBitBoard_count_coins env s =
     (case count_loop (black s) 0 of
        None \<Rightarrow> None
      | Some b \<Rightarrow> (case count_loop (white s) 0 of None \<Rightarrow> None | Some w \<Rightarrow> Some (b, w)))"

subsection \<open>StateEnv\<close>

text \<open>
  \<open>__init__\<close> keeps an even size and replaces an odd one by the next even number; Python's
  \<open>%\<close> rounds like \<open>mod\<close>.  It raises nothing.
\<close>

record StateEnv =
  se_size :: int

definition StateEnv_init :: "int \<Rightarrow> error + StateEnv" where
  "StateEnv_init board_size =
     Inr \<lparr>se_size = (if board_size mod 2 = 0 then board_size else board_size + 1)\<rparr>"

text \<open>
  A state is an array of shape \<open>(size, size, 3)\<close>: \<open>s ! r ! c ! ch\<close> is \<open>s[r, c, ch]\<close>.
  The array of legal moves has shape \<open>(size, size)\<close>.  NumPy counts a negative index from
  the end and raises \<open>IndexError\<close> outside \<open>[-n, n)\<close>; \<open>np_index\<close> is that rule.  Where the
  source has just passed \<open>_check_legal_index\<close> the index is read as it is (\<open>rd\<close>).
\<close>

type_synonym ndarray3 = "nat list list list"
type_synonym ndarray2 = "nat list list"

definition np_index :: "int \<Rightarrow> int \<Rightarrow> nat option" where
  "np_index n i =
     (if 0 \<le> i \<and> i < n then Some (nat i)
      else if - n \<le> i \<and> i < 0 then Some (nat (i + n))
      else None)"

definition rd :: "ndarray3 \<Rightarrow> int \<Rightarrow> int \<Rightarrow> nat \<Rightarrow> nat" where
  "rd s row col ch = s ! nat row ! nat col ! ch"

definition wr :: "ndarray3 \<Rightarrow> nat \<Rightarrow> nat \<Rightarrow> nat \<Rightarrow> nat \<Rightarrow> ndarray3" where
  "wr s r c ch v = s[r := (s ! r)[c := (s ! r ! c)[ch := v]]]"

definition wr2 :: "ndarray2 \<Rightarrow> nat \<Rightarrow> nat \<Rightarrow> nat \<Rightarrow> ndarray2" where
  "wr2 m r c v = m[r := (m ! r)[c := v]]"

text \<open>\<open>s[:, :, 2] = v\<close>\<close>

definition set_player :: "ndarray3 \<Rightarrow> nat \<Rightarrow> ndarray3" where
  "set_player s v = map (map (\<lambda>cell. cell[2 := v])) s"

definition check_legal_index :: "StateEnv \<Rightarrow> int \<Rightarrow> int \<Rightarrow> bool" where
  "check_legal_index env row col =
     (0 \<le> row \<and> row < se_size env \<and> 0 \<le> col \<and> col < se_size env)"

text \<open>
  The search along one direction:
  \<^verbatim>\<open>
        i = 1
        found = False
        while(True):
            i += 1
            n_row, n_col = row+i*del_row, col+i*del_col
            if(self._check_legal_index(n_row, n_col)):
                if(s[n_row, n_col, :2].sum() == 0):
                    break
                if(s[n_row, n_col, current_player] == 1):
                    found = True
                    break
            else:
                break
  \<close>
  It returns \<open>found\<close> with the last \<open>n_row, n_col\<close>.  The sum of a \<open>uint8\<close> slice is
  taken in 64 bits and does not wrap.
\<close>

function find_loop ::
  "StateEnv \<Rightarrow> ndarray3 \<Rightarrow> nat \<Rightarrow> int \<Rightarrow> int \<Rightarrow> direction \<Rightarrow> int \<Rightarrow> bool \<times> int \<times> int" where
  "find_loop env s current_player row col d i =
     (let i = i + 1;
          n_row = row + i * del_row d;
          n_col = col + i * del_col d
      in if check_legal_index env n_row n_col then
           (if rd s n_row n_col 0 + rd s n_row n_col 1 = 0 then (False, n_row, n_col)
            else if rd s n_row n_col current_player = 1 then (True, n_row, n_col)
            else find_loop env s current_player row col d i)
         else (False, n_row, n_col))"
  by pat_completeness auto
termination
  by (relation "measure (\<lambda>(env, s, current_player, row, col, d, i).
         if del_row d = 1 then nat (se_size env - (row + i))
         else if del_row d = -1 then nat (row - i + 1)
         else if del_col d = 1 then nat (se_size env - (col + i))
         else nat (col - i + 1))")
    (auto simp: check_legal_index_def Let_def, (case_tac d; simp)+)

declare find_loop.simps [simp del]

text \<open>
  The flips of one direction, up to the cell the search stopped at:
  \<^verbatim>\<open>
        i = 0
        while(True):
            i += 1
            if(row+i*del_row == n_row and col+i*del_col == n_col):
                break
            s_new[row+i*del_row, col+i*del_col, opposite_player] = 0
            s_new[row+i*del_row, col+i*del_col, current_player] = 1
  \<close>
  A walk that misses \<open>(n_row, n_col)\<close> ends with the \<open>IndexError\<close> of the first write
  outside the array.
\<close>

function flip_loop ::
  "StateEnv \<Rightarrow> ndarray3 \<Rightarrow> nat \<Rightarrow> nat \<Rightarrow> int \<Rightarrow> int \<Rightarrow> direction \<Rightarrow> int \<Rightarrow> int \<Rightarrow> int
     \<Rightarrow> error + ndarray3" where
  "flip_loop env s_new current_player opposite_player row col d n_row n_col i =
     (let i = i + 1 in
      if row + i * del_row d = n_row \<and> col + i * del_col d = n_col then Inr s_new
      else
        (case (np_index (se_size env) (row + i * del_row d),
               np_index (se_size env) (col + i * del_col d)) of
           (Some r, Some c) \<Rightarrow>
             flip_loop env (wr (wr s_new r c opposite_player 0) r c current_player 1)
               current_player opposite_player row col d n_row n_col i
         | _ \<Rightarrow> Inl IndexError))"
  by pat_completeness auto
termination
  by (relation "measure (\<lambda>(env, s_new, current_player, opposite_player, row, col, d, n_row, n_col, i).
         if del_row d = 1 then nat (se_size env - (row + i))
         else if del_row d = -1 then nat (row - i + se_size env + 1)
         else if del_col d = 1 then nat (se_size env - (col + i))
         else nat (col - i + se_size env + 1))")
    (auto simp: np_index_def Let_def split: if_splits, (case_tac d; simp)+)

declare flip_loop.simps [simp del]

text \<open>A loop whose body may raise.\<close>

fun foldM :: "('b \<Rightarrow> 'a \<Rightarrow> error + 'b) \<Rightarrow> 'a list \<Rightarrow> 'b \<Rightarrow> error + 'b" where
  "foldM f [] acc = Inr acc"
| "foldM f (x # xs) acc = (case f acc x of Inl e \<Rightarrow> Inl e | Inr acc' \<Rightarrow> foldM f xs acc')"

text \<open>
  The body of \<open>for del_row, del_col in [...]\<close> of \<open>_legal_moves_helper\<close>, on the pair
  \<open>(legal_moves, s_new)\<close>; \<open>r\<close> and \<open>c\<close> are the places of \<open>row\<close> and \<open>col\<close> in the array.
\<close>

definition direction_body ::
  "StateEnv \<Rightarrow> ndarray3 \<Rightarrow> bool \<Rightarrow> nat \<Rightarrow> nat \<Rightarrow> int \<Rightarrow> int \<Rightarrow> nat \<Rightarrow> nat
     \<Rightarrow> ndarray2 \<times> ndarray3 \<Rightarrow> direction \<Rightarrow> error + ndarray2 \<times> ndarray3" where
  "direction_body env s play current_player opposite_player row col r c acc d =
     (case acc of (legal_moves, s_new) \<Rightarrow>
        (let n_row = row + del_row d; n_col = col + del_col d in
         if check_legal_index env n_row n_col then
           (if rd s n_row n_col opposite_player = 1 then
              (case find_loop env s current_player row col d 1 of
                 (found, n_row, n_col) \<Rightarrow>
                   if found then
                     (let legal_moves = wr2 legal_moves r c 1 in
                      if play then
                        (case flip_loop env s_new current_player opposite_player
                                row col d n_row n_col 0 of
                           Inl e \<Rightarrow> Inl e
                         | Inr s_new \<Rightarrow> Inr (legal_moves, s_new))
                      else Inr (legal_moves, s_new))
                   else Inr (legal_moves, s_new))
            else Inr (legal_moves, s_new))
         else Inr (legal_moves, s_new)))"

text \<open>
  The body of \<open>for col in col_range\<close>.  \<open>s[row,col,0] + s[row,col,1]\<close> adds two \<open>uint8\<close>
  scalars and wraps at 256.
\<close>

definition cell_body ::
  "StateEnv \<Rightarrow> ndarray3 \<Rightarrow> bool \<Rightarrow> nat \<Rightarrow> nat \<Rightarrow> int \<Rightarrow> ndarray2 \<times> ndarray3 \<Rightarrow> int
     \<Rightarrow> error + ndarray2 \<times> ndarray3" where
  "cell_body env s play current_player opposite_player row acc col =
     (case acc of (legal_moves, s_new) \<Rightarrow>
        (case (np_index (se_size env) row, np_index (se_size env) col) of
           (Some r, Some c) \<Rightarrow>
             if (s ! r ! c ! 0 + s ! r ! c ! 1) mod 256 = 0 then
               foldM (direction_body env s play current_player opposite_player row col r c)
                 deltas
                 (legal_moves, if play then wr s_new r c current_player 1 else s_new)
             else Inr (legal_moves, s_new)
         | _ \<Rightarrow> Inl IndexError))"

text \<open>
  \<open>_legal_moves_helper(s, action_row, action_col, play)\<close> returns
  \<open>(legal_moves, s_new)\<close>.  Without \<open>play\<close> the two action arguments are not read (the
  callers leave them \<open>None\<close>).  \<open>s[0,0,2]\<close> raises on an array without cells.
\<close>

definition StateEnv_legal_moves_helper ::
  "StateEnv \<Rightarrow> ndarray3 \<Rightarrow> int \<Rightarrow> int \<Rightarrow> bool \<Rightarrow> error + ndarray2 \<times> ndarray3" where
  "StateEnv_legal_moves_helper env s action_row action_col play =
     (if se_size env \<le> 0 then Inl IndexError
      else
        (let current_player = s ! 0 ! 0 ! 2;
             opposite_player = (if current_player \<noteq> 0 then 0 else 1);
             legal_moves = replicate (nat (se_size env)) (replicate (nat (se_size env)) 0);
             row_range = (if play then [action_row] else map int [0..<nat (se_size env)]);
             col_range = (if play then [action_col] else map int [0..<nat (se_size env)])
         in foldM (\<lambda>acc row.
                     foldM (cell_body env s play current_player opposite_player row)
                       col_range acc)
              row_range (legal_moves, s)))"

text \<open>
  \<open>reset\<close> returns \<open>(s, legal_moves, 1)\<close>.  \<open>np.zeros\<close> refuses a negative size, and the
  two assignments through index lists raise on an array without cells.
\<close>

definition StateEnv_reset :: "StateEnv \<Rightarrow> error + ndarray3 \<times> ndarray2 \<times> int" where
  "StateEnv_reset env =
     (if se_size env < 0 then Inl ValueError
      else
        (let n = nat (se_size env);
             starter_board = replicate n (replicate n [0, 0, 0]);
             half_width = se_size env div 2 - 1
         in case (np_index (se_size env) half_width, np_index (se_size env) (half_width + 1)) of
              (Some h, Some h1) \<Rightarrow>
                (let starter_board = wr (wr starter_board h h 1 1) h1 h1 1 1;
                     starter_board = wr (wr starter_board h h1 0 1) h1 h 0 1;
                     starter_board = set_player starter_board 1
                 in case StateEnv_legal_moves_helper env starter_board 0 0 False of
                      Inl e \<Rightarrow> Inl e
                    | Inr (legal_moves, s) \<Rightarrow> Inr (s, legal_moves, 1))
            | _ \<Rightarrow> Inl IndexError))"

text \<open>
  \<open>step\<close> returns \<open>(s_next, legal_moves, int(s_next[0, 0, 2]), done)\<close>.  The sums run in
  64 bits.  \<open>abs(s[0,0,2]-1)\<close> is taken on integers, as NumPy did before version 2 (the
  \<open>abs\<close> is there for the \<open>-1\<close> of player 0).
\<close>

definition sum2 :: "ndarray2 \<Rightarrow> nat" where
  "sum2 m = sum_list (map sum_list m)"

definition sum_coins :: "ndarray3 \<Rightarrow> nat" where
  "sum_coins s = sum_list (map (\<lambda>row. sum_list (map (\<lambda>cell. cell ! 0 + cell ! 1) row)) s)"

definition StateEnv_step ::
  "StateEnv \<Rightarrow> ndarray3 \<Rightarrow> int \<Rightarrow> error + ndarray3 \<times> ndarray2 \<times> int \<times> int" where
  "StateEnv_step env s a =
     (if se_size env = 0 then Inl ZeroDivisionError
      else
        (case StateEnv_legal_moves_helper env s (a div se_size env) (a mod se_size env) True of
           Inl e \<Rightarrow> Inl e
         | Inr (_, s_next) \<Rightarrow>
             (let s_next = set_player s_next (nat \<bar>int (s ! 0 ! 0 ! 2) - 1\<bar>) in
              case StateEnv_legal_moves_helper env s_next 0 0 False of
                Inl e \<Rightarrow> Inl e
              | Inr (legal_moves, s_next) \<Rightarrow>
                  if sum2 legal_moves = 0 then
                    (if int (sum_coins s_next) = se_size env ^ 2 then
                       Inr (s_next, legal_moves, int (s_next ! 0 ! 0 ! 2), 1)
                     else
                       (let s_next = set_player s_next (s ! 0 ! 0 ! 2) in
                        case StateEnv_legal_moves_helper env s_next 0 0 False of
                          Inl e \<Rightarrow> Inl e
                        | Inr (legal_moves, _) \<Rightarrow>
                            if sum2 legal_moves = 0 then
                              Inr (s_next, legal_moves, int (s_next ! 0 ! 0 ! 2), 1)
                            else Inr (s_next, legal_moves, int (s_next ! 0 ! 0 ! 2), 0)))
                  else Inr (s_next, legal_moves, int (s_next ! 0 ! 0 ! 2), 0))))"

text \<open>\<open>count_coins\<close> returns \<open>(s[:,:,0].sum(), s[:,:,1].sum())\<close>.\<close>

definition StateEnv_count_coins :: "StateEnv \<Rightarrow> ndarray3 \<Rightarrow> nat \<times> nat" where
  "StateEnv_count_coins env s =
     (sum_list (map (\<lambda>row. sum_list (map (\<lambda>cell. cell ! 0) row)) s),
      sum_list (map (\<lambda>row. sum_list (map (\<lambda>cell. cell ! 1) row)) s))"

subsection \<open>StateConverter\<close>

text \<open>
  \<open>__init__\<close> fills the multiplier table from the last entry down, doubling \<open>x\<close>, and
  reshapes it to rows of \<open>size\<close> entries.  The table is \<open>uint64\<close>: storing \<open>2 ^ 64\<close>
  raises \<open>OverflowError\<close>, so that no board larger than 8 by 8 can be built; the reshape
  raises \<open>ValueError\<close> unless the size is positive.
\<close>

record StateConverter =
  sc_size :: int
  array_to_bitboard :: "int list list"

definition fill_table :: "nat \<Rightarrow> int list" where
  "fill_table n = fst (foldl (\<lambda>(arr, x) i. (arr[i := x], x * 2)) (replicate n 0, 1) (rev [0..<n]))"

definition reshape :: "nat \<Rightarrow> int list \<Rightarrow> int list list" where
  "reshape n xs = map (\<lambda>i. take n (drop (i * n) xs)) [0..<length xs div n]"

definition StateConverter_init :: "int \<Rightarrow> error + StateConverter" where
  "StateConverter_init board_size =
     (if 64 < board_size ^ 2 then Inl OverflowError
      else if board_size \<le> 0 then Inl ValueError
      else Inr \<lparr>sc_size = board_size,
                array_to_bitboard = reshape (nat board_size) (fill_table (nat (board_size ^ 2)))\<rparr>)"

text \<open>
  The values \<open>convert\<close> takes and returns: a bitboard state, a dense state, one mask as an
  integer, one mask as an array, a position, and the \<open>None\<close> of an unknown output format.
\<close>

datatype pyval =
  Bitboard bitboard
| Ndarray3d ndarray3
| Bitboard_single int
| Ndarray ndarray2
| Position int
| PyNone

text \<open>
  \<^verbatim>\<open>
                for i in range(self._size-1, -1, -1):
                    for j in range(self._size-1, -1, -1):
                        board[i, j, coin] = t & 1
                        t = t >> 1
  \<close>
\<close>

definition unpack_bits :: "nat \<Rightarrow> ndarray3 \<Rightarrow> nat \<Rightarrow> int \<Rightarrow> ndarray3 \<times> int" where
  "unpack_bits n board coin t =
     foldl (\<lambda>acc i.
              foldl (\<lambda>(board, t) j. (wr board i j coin (nat (t AND 1)), drop_bit 1 t))
                acc (rev [0..<n]))
       (board, t) (rev [0..<n])"

text \<open>
  \<open>int(np.multiply(board[:, :, ch], self._array_to_bitboard).sum())\<close>: products and sum
  are \<open>uint64\<close>.
\<close>

definition pack_bits :: "StateConverter \<Rightarrow> ndarray3 \<Rightarrow> nat \<Rightarrow> int" where
  "pack_bits cv board ch =
     (\<Sum>i\<leftarrow>[0..<nat (sc_size cv)]. \<Sum>j\<leftarrow>[0..<nat (sc_size cv)].
        int (board ! i ! j ! ch) * array_to_bitboard cv ! i ! j) mod 2 ^ 64"

text \<open>
  The first half of \<open>convert\<close>: the input in the internal format.  A value that is not of
  the kind its format names raises \<open>TypeError\<close>; an unknown format leaves the zero board
  (the source prints a message).  Stores into the \<open>uint8\<close> board wrap at 256.
\<close>

definition convert_input :: "StateConverter \<Rightarrow> pyval \<Rightarrow> string \<Rightarrow> error + ndarray3" where
  "convert_input cv s input_format =
     (let n = nat (sc_size cv);
          board = replicate n (replicate n [0, 0, 0])
      in if input_format = ''bitboard'' then
           (case s of
              Bitboard b \<Rightarrow>
                (let board = fst (unpack_bits n board 0 (black b));
                     board = fst (unpack_bits n board 1 (white b))
                 in Inr (map (map (\<lambda>cell. cell[2 := nat (player b mod 256)])) board))
            | _ \<Rightarrow> Inl TypeError)
         else if input_format = ''ndarray3d'' then
           (case s of Ndarray3d a \<Rightarrow> Inr a | _ \<Rightarrow> Inl TypeError)
         else if input_format = ''bitboard_single'' then
           (case s of
              Bitboard_single t \<Rightarrow> Inr (fst (unpack_bits n board 0 t))
            | _ \<Rightarrow> Inl TypeError)
         else if input_format = ''ndarray'' then
           (case s of
              Ndarray a \<Rightarrow>
                Inr (map (\<lambda>i. map (\<lambda>j. [a ! i ! j mod 256, 0, 0]) [0..<n]) [0..<n])
            | _ \<Rightarrow> Inl TypeError)
         else if input_format = ''position'' then
           (case s of
              Position p \<Rightarrow>
                (case (np_index (sc_size cv) (p div sc_size cv),
                       np_index (sc_size cv) (p mod sc_size cv)) of
                   (Some r, Some c) \<Rightarrow> Inr (wr board r c 0 1)
                 | _ \<Rightarrow> Inl IndexError)
            | _ \<Rightarrow> Inl TypeError)
         else Inr board)"

text \<open>
  \<open>convert(s, input_format, output_format)\<close>.  For the output \<open>bitboard\<close> the player is
  read from the argument, \<open>player = s[0, 0, 2]\<close>, which has to be a dense state.
\<close>

definition StateConverter_convert ::
  "StateConverter \<Rightarrow> pyval \<Rightarrow> string \<Rightarrow> string \<Rightarrow> error + pyval" where
  "StateConverter_convert cv s input_format output_format =
     (if input_format = output_format then Inr s
      else
        (case convert_input cv s input_format of
           Inl e \<Rightarrow> Inl e
         | Inr board \<Rightarrow>
             if output_format = ''bitboard'' then
               (case s of
                  Ndarray3d a \<Rightarrow>
                    Inr (Bitboard \<lparr>black = pack_bits cv board 0, white = pack_bits cv board 1,
                                    player = int (a ! 0 ! 0 ! 2)\<rparr>)
                | Ndarray a \<Rightarrow> Inl IndexError
                | _ \<Rightarrow> Inl TypeError)
             else if output_format = ''ndarray3d'' then Inr (Ndarray3d board)
             else if output_format = ''ndarray'' then
               Inr (Ndarray (map (map (\<lambda>cell. cell ! 0)) board))
             else if output_format = ''bitboard_single'' then
               Inr (Bitboard_single (pack_bits cv board 0))
             else Inr PyNone))"

section \<open>Construction\<close>

lemma StateEnvBitBoard_init_const: "StateEnvBitBoard_init board_size = StateEnvBitBoard_init 8"
  by (simp add: StateEnvBitBoard_init_def)

text \<open>
  Claim C10.  The bitboard engine does not depend on the size it is constructed with:
  for every \<open>board_size\<close> the constructor returns the engine that \<open>StateEnvBitBoard(8)\<close>
  returns, of size 8, so that \<open>reset\<close>, \<open>step\<close>, \<open>count_coins\<close> and
  \<open>_legal_moves_helper\<close> give the same results on both.
\<close>

theorem bitboard_engine_ignores_board_size:
  "\<exists>env env8.
     StateEnvBitBoard_init board_size = Inr env \<and> StateEnvBitBoard_init 8 = Inr env8 \<and>
     bb_size env = 8 \<and>
     StateEnvBitBoard_reset env = StateEnvBitBoard_reset env8 \<and>
     (\<forall>s a. StateEnvBitBoard_step env s a = StateEnvBitBoard_step env8 s a) \<and>
     (\<forall>s. StateEnvBitBoard_count_coins env s = StateEnvBitBoard_count_coins env8 s) \<and>
     (\<forall>s. StateEnvBitBoard_legal_moves_helper env s = StateEnvBitBoard_legal_moves_helper env8 s)"
  by (simp add: StateEnvBitBoard_init_def)

text \<open>
  Claim C8 says that a size that is odd or not positive makes the construction fail.
  It does not: \<open>StateEnv(7)\<close> is an engine of size 8, \<open>StateEnv(-2)\<close> and \<open>StateEnv(0)\<close>
  are engines of size -2 and 0, and \<open>StateEnvBitBoard(7)\<close> and \<open>StateEnvBitBoard(-2)\<close> are
  engines of size 8.
\<close>

theorem construction_never_fails_counterexample:
  "StateEnv_init 7 = Inr \<lparr>se_size = 8\<rparr> \<and>
   StateEnv_init (- 2) = Inr \<lparr>se_size = - 2\<rparr> \<and>
   StateEnv_init 0 = Inr \<lparr>se_size = 0\<rparr> \<and>
   StateEnvBitBoard_init 7 = Inr \<lparr>bb_size = 8, bb_max = 0xFFFFFFFFFFFFFFFF\<rparr> \<and>
   StateEnvBitBoard_init (- 2) = Inr \<lparr>bb_size = 8, bb_max = 0xFFFFFFFFFFFFFFFF\<rparr>"
  by (simp add: StateEnv_init_def StateEnvBitBoard_init_def)

text \<open>
  Claim C8, amended.  The construction succeeds for every requested size.  \<open>StateEnv\<close>
  keeps an even size as it is, positive or not, and replaces an odd size by the next even
  number (the stored size is the request plus its remainder modulo 2, and is even);
  \<open>StateEnvBitBoard\<close> stores 8 whatever the request.
\<close>

theorem construction_adjusts_size:
  "\<exists>env envb.
     StateEnv_init board_size = Inr env \<and>
     se_size env = board_size + board_size mod 2 \<and> se_size env mod 2 = 0 \<and>
     StateEnvBitBoard_init board_size = Inr envb \<and> bb_size envb = 8"
proof -
  have "board_size mod 2 \<noteq> 0 \<Longrightarrow> board_size mod 2 = 1 \<and> (board_size + 1) mod 2 = 0"
    by presburger
  then show ?thesis
    by (auto simp: StateEnv_init_def StateEnvBitBoard_init_def)
qed

definition cell_bit :: "int \<Rightarrow> int \<Rightarrow> nat" where
  "cell_bit r c = nat (63 - 8 * r - c)"

definition on_board :: "int \<Rightarrow> int \<Rightarrow> int \<Rightarrow> bool" where
  "on_board n r c = (0 \<le> r \<and> r < n \<and> 0 \<le> c \<and> c < n)"

definition has :: "int \<Rightarrow> int \<times> int \<Rightarrow> bool" where
  "has x p = (case p of (r, c) \<Rightarrow> on_board 8 r c \<and> bit x (cell_bit r c))"

fun mask_keeps :: "direction \<Rightarrow> nat \<Rightarrow> bool" where
  "mask_keeps Left n = (n mod 8 \<noteq> 0)"
| "mask_keeps Right n = (n mod 8 \<noteq> 7)"
| "mask_keeps Top n = (8 \<le> n)"
| "mask_keeps Bottom n = (n < 56)"
| "mask_keeps Right_top n = (8 \<le> n \<and> n mod 8 \<noteq> 7)"
| "mask_keeps Left_top n = (8 \<le> n \<and> n mod 8 \<noteq> 0)"
| "mask_keeps Right_bottom n = (n < 56 \<and> n mod 8 \<noteq> 7)"
| "mask_keeps Left_bottom n = (n < 56 \<and> n mod 8 \<noteq> 0)"

lemma mask_bits_aux:
  "list_all (\<lambda>n. list_all (\<lambda>k. bit (incorrect_shift_mask k) n = mask_keeps k n) directions) [0..<64]"
  by code_simp

lemma directions_all: "k \<in> set directions"
  by (cases k) (simp_all add: directions_def)

lemma mask_bits: "bit (incorrect_shift_mask k) n = (n < 64 \<and> mask_keeps k n)"
proof (cases "n < 64")
  case True
  then have "n \<in> set [0..<64]" by simp
  then show ?thesis using mask_bits_aux directions_all[of k] True
    unfolding list_all_iff by blast
next
  case False
  then show ?thesis using bit_lt_64[of "incorrect_shift_mask k" n] mask_range[of k]
    by (auto simp: in_range64_def)
qed

lemma bit_shift_fn_iff:
  "bit (bit_shift_fn k x) n =
     (if is_push k then shift_amount k \<le> n \<and> bit x (n - shift_amount k)
      else bit x (n + shift_amount k))"
  by (simp add: bit_shift_fn_eq bit_push_bit_iff_int bit_drop_bit_eq add.commute)

lemma cell_bit_eq: "on_board 8 r c \<Longrightarrow> cell_bit r c = 8 * nat (7 - r) + nat (7 - c)"
  by (simp add: cell_bit_def on_board_def nat_eq_iff)

lemma neighbour_bit:
  assumes "on_board 8 r c"
  shows "(cell_bit r c < 64 \<and> mask_keeps k (cell_bit r c) \<and> (is_push k \<longrightarrow> shift_amount k \<le> cell_bit r c))
           = on_board 8 (r - del_row k) (c - del_col k)"
    and "on_board 8 (r - del_row k) (c - del_col k) \<Longrightarrow>
           cell_bit (r - del_row k) (c - del_col k) =
             (if is_push k then cell_bit r c - shift_amount k else cell_bit r c + shift_amount k)"
proof -
  define R where "R = nat (7 - r)"
  define C where "C = nat (7 - c)"
  have RC: "r = 7 - int R" "c = 7 - int C" "R < 8" "C < 8"
    using assms unfolding R_def C_def on_board_def by auto
  have n: "cell_bit r c = 8 * R + C" using RC by (simp add: cell_bit_def nat_eq_iff)
  have m: "(8 * R + C) mod 8 = C" using RC by simp
  show "(cell_bit r c < 64 \<and> mask_keeps k (cell_bit r c) \<and> (is_push k \<longrightarrow> shift_amount k \<le> cell_bit r c))
           = on_board 8 (r - del_row k) (c - del_col k)"
    unfolding n using RC(3,4) unfolding RC(1,2) on_board_def by (cases k; simp add: m; linarith)
  show "cell_bit (r - del_row k) (c - del_col k) =
             (if is_push k then cell_bit r c - shift_amount k else cell_bit r c + shift_amount k)"
    if "on_board 8 (r - del_row k) (c - del_col k)"
    unfolding n using RC(3,4) that unfolding RC(1,2) on_board_def cell_bit_def by (cases k; simp; linarith)
qed

lemma shift_has_aux:
  assumes "on_board 8 r c"
  shows "bit (bit_shift_fn k x AND incorrect_shift_mask k) (cell_bit r c) =
         (on_board 8 (r - del_row k) (c - del_col k) \<and> bit x (cell_bit (r - del_row k) (c - del_col k)))"
  using neighbour_bit[OF assms, of k]
  by (auto simp: bit_and_iff mask_bits bit_shift_fn_iff)

lemma shift_has:
  "has (bit_shift_fn k x AND incorrect_shift_mask k) (r, c) =
     (on_board 8 r c \<and> has x (r - del_row k, c - del_col k))"
  using shift_has_aux[of r c k x] by (auto simp: has_def)

definition step :: "direction \<Rightarrow> int \<times> int \<Rightarrow> int \<times> int" where
  "step d p = (fst p + del_row d, snd p + del_col d)"

fun opposite :: "direction \<Rightarrow> direction" where
  "opposite Left = Right"
| "opposite Right = Left"
| "opposite Top = Bottom"
| "opposite Bottom = Top"
| "opposite Right_top = Left_bottom"
| "opposite Left_bottom = Right_top"
| "opposite Left_top = Right_bottom"
| "opposite Right_bottom = Left_top"

fun ray :: "(int \<times> int \<Rightarrow> bool) \<Rightarrow> (int \<times> int \<Rightarrow> bool) \<Rightarrow> direction \<Rightarrow> int \<times> int \<Rightarrow> nat \<Rightarrow> bool" where
  "ray mine theirs d q 0 = mine q"
| "ray mine theirs d q (Suc i) = (theirs q \<and> ray mine theirs d (step d q) i)"

lemma opposite_opposite [simp]: "opposite (opposite k) = k"
  by (cases k) simp_all

lemma del_opposite [simp]: "del_row (opposite k) = - del_row k" "del_col (opposite k) = - del_col k"
  by (cases k; simp)+

lemma has_0 [simp]: "has 0 p = False"
  by (simp add: has_def)

lemma has_and: "has (x AND y) p = (has x p \<and> has y p)"
  by (auto simp: has_def bit_and_iff)

lemma has_or [simp]: "has (x OR y) p = (has x p \<or> has y p)"
  by (auto simp: has_def bit_or_iff)

lemma has_on_board: "has x (r, c) \<Longrightarrow> on_board 8 r c"
  by (simp add: has_def)

lemma has_shift:
  "has (bit_shift_fn k x AND incorrect_shift_mask k) p = (on_board 8 (fst p) (snd p) \<and> has x (step (opposite k) p))"
  using shift_has[of k x "fst p" "snd p"] by (simp add: step_def)

lemma has_and_shift:
  "has (y AND bit_shift_fn k x AND incorrect_shift_mask k) p = (has y p \<and> has x (step (opposite k) p))"
  by (cases p) (auto simp: has_and[of y] has_shift dest: has_on_board)

lemma ray_shift:
  assumes "\<And>q. c' q = (theirs q \<and> c (step d q))"
  shows "ray c' theirs d q i = ray c theirs d q (Suc i)"
  by (induction i arbitrary: q) (simp_all add: assms)

lemma ray_False [simp]: "\<not> ray (\<lambda>_. False) theirs d q i"
  by (induction i arbitrary: q) simp_all

lemma ray_False_ex [simp]: "(\<exists>i. ray (\<lambda>_. False) theirs d q i) = False"
  by simp

lemma has_0_fun: "has 0 = (\<lambda>_. False)"
  by (rule ext) simp

lemma has_legal_loop:
  "has (legal_loop k board_notp e c m) p =
     (has m p \<or> (has e p \<and> (\<exists>i. ray (has c) (has board_notp) (opposite k) (step (opposite k) p) i)))"
proof (induction k board_notp e c m rule: legal_loop.induct)
  case (1 k board_notp e c m)
  let ?d = "opposite k"
  show ?case
  proof (cases "c = 0")
    case True
    show ?thesis using True by (subst legal_loop.simps) (simp add: has_0_fun)
  next
    case False
    let ?c' = "board_notp AND bit_shift_fn k c AND incorrect_shift_mask k"
    have c': "has ?c' q = (has board_notp q \<and> has c (step ?d q))" for q
      by (rule has_and_shift)
    have r: "ray (has ?c') (has board_notp) ?d q i = ray (has c) (has board_notp) ?d q (Suc i)" for q i
      by (rule ray_shift) (rule c')
    have e: "has (e AND bit_shift_fn k c AND incorrect_shift_mask k) p = (has e p \<and> has c (step ?d p))"
      by (rule has_and_shift)
    have "(\<exists>i. ray (has c) (has board_notp) ?d (step ?d p) i) =
          (has c (step ?d p) \<or> (\<exists>i. ray (has c) (has board_notp) ?d (step ?d p) (Suc i)))"
      by (metis ray.simps(1) not0_implies_Suc)
    then show ?thesis
      using False "1.IH"[OF False] by (subst legal_loop.simps) (auto simp: r e simp del: ray.simps)
  qed
qed


lemma has_legal_sweep:
  "has (legal_sweep board_p board_notp e m k) p =
     (has m p \<or> (has e p \<and>
        (\<exists>i. ray (has board_p) (has board_notp) (opposite k) (step (opposite k) p) (Suc i))))"
proof -
  have "ray (has (board_notp AND bit_shift_fn k board_p AND incorrect_shift_mask k))
          (has board_notp) (opposite k) q i =
        ray (has board_p) (has board_notp) (opposite k) q (Suc i)" for q i
    by (rule ray_shift) (rule has_and_shift)
  then show ?thesis by (simp add: legal_sweep_def has_legal_loop del: ray.simps)
qed

lemma has_foldl_legal_sweep:
  "has (foldl (legal_sweep board_p board_notp e) m ks) p =
     (has m p \<or> (has e p \<and>
        (\<exists>k\<in>set ks. \<exists>i. ray (has board_p) (has board_notp) (opposite k) (step (opposite k) p) (Suc i))))"
  by (induction ks arbitrary: m) (auto simp: has_legal_sweep simp del: ray.simps)

lemma in_range64_0 [simp]: "in_range64 0"
  by (simp add: in_range64_def)

lemma in_range64_or: "in_range64 x \<Longrightarrow> in_range64 y \<Longrightarrow> in_range64 (x OR y)"
  unfolding in_range64_def using OR_upper[of x 64 y] by simp

lemma in_range64_and: "in_range64 x \<Longrightarrow> in_range64 (x AND y)" "in_range64 y \<Longrightarrow> in_range64 (x AND y)"
  unfolding in_range64_def
  using AND_upper1[of x y] AND_upper2[of y x] by (auto simp: and_nonnegative_int_iff)

lemma in_range64_legal_loop: "in_range64 m \<Longrightarrow> in_range64 (legal_loop k board_notp e c m)"
proof (induction k board_notp e c m rule: legal_loop.induct)
  case (1 k board_notp e c m)
  show ?case
  proof (cases "c = 0")
    case True
    then show ?thesis using "1.prems" by (subst legal_loop.simps) simp
  next
    case False
    have "in_range64 (e AND bit_shift_fn k c AND incorrect_shift_mask k)"
      using and_mask_in_range[of "e AND bit_shift_fn k c" k] by (simp add: and.assoc)
    then have "in_range64 (m OR (e AND bit_shift_fn k c AND incorrect_shift_mask k))"
      using "1.prems" by (rule in_range64_or[rotated])
    from "1.IH"[OF False this] show ?thesis using False by (subst legal_loop.simps) simp
  qed
qed

lemma in_range64_foldl_legal_sweep:
  "in_range64 m \<Longrightarrow> in_range64 (foldl (legal_sweep board_p board_notp e) m ks)"
  by (induction ks arbitrary: m) (simp_all add: legal_sweep_def in_range64_legal_loop)

lemma bit_max_minus:
  assumes "in_range64 x"
  shows "bit (0xFFFFFFFFFFFFFFFF - x) n = (n < 64 \<and> \<not> bit x n)"
proof -
  have "(- x - 1) mod 18446744073709551616 = 18446744073709551615 - x"
    using assms unfolding in_range64_def
    by (intro int_mod_pos_eq[where q = "- 1"]) simp_all
  then have "(0xFFFFFFFFFFFFFFFF::int) - x = take_bit 64 (NOT x)"
    by (simp add: take_bit_eq_mod not_int_def)
  then show ?thesis by (simp add: bit_take_bit_iff bit_not_iff)
qed

lemma cell_bit_lt: "on_board 8 r c \<Longrightarrow> cell_bit r c < 64"
  unfolding on_board_def cell_bit_def by auto

lemma has_max_minus:
  "in_range64 x \<Longrightarrow> has (0xFFFFFFFFFFFFFFFF - x) (r, c) = (on_board 8 r c \<and> \<not> has x (r, c))"
  using cell_bit_lt[of r c] by (auto simp: has_def bit_max_minus)

definition ahead :: "direction \<Rightarrow> int \<times> int \<Rightarrow> nat \<Rightarrow> int \<times> int" where
  "ahead d p i = (fst p + int i * del_row d, snd p + int i * del_col d)"

definition captures ::
  "(int \<times> int \<Rightarrow> bool) \<Rightarrow> (int \<times> int \<Rightarrow> bool) \<Rightarrow> int \<times> int \<Rightarrow> direction \<Rightarrow> nat \<Rightarrow> bool" where
  "captures mine theirs p d j =
     (1 \<le> j \<and> (\<forall>i\<in>{1..j}. theirs (ahead d p i)) \<and> mine (ahead d p (j + 1)))"

definition legal_cell ::
  "(int \<times> int \<Rightarrow> bool) \<Rightarrow> (int \<times> int \<Rightarrow> bool) \<Rightarrow> (int \<times> int \<Rightarrow> bool) \<Rightarrow> int \<times> int \<Rightarrow> bool" where
  "legal_cell mine theirs free p = (free p \<and> (\<exists>d j. captures mine theirs p d j))"

definition valid_bitboard :: "bitboard \<Rightarrow> bool" where
  "valid_bitboard s =
     (in_range64 (black s) \<and> in_range64 (white s) \<and> black s AND white s = 0 \<and>
      (player s = 0 \<or> player s = 1))"

definition mine_bb :: "bitboard \<Rightarrow> int \<times> int \<Rightarrow> bool" where
  "mine_bb s = has (board_of s (player s))"

definition theirs_bb :: "bitboard \<Rightarrow> int \<times> int \<Rightarrow> bool" where
  "theirs_bb s = has (board_of s (if player s \<noteq> 0 then 0 else 1))"

definition empty_bb :: "bitboard \<Rightarrow> int \<times> int \<Rightarrow> bool" where
  "empty_bb s p = (on_board 8 (fst p) (snd p) \<and> \<not> has (black s) p \<and> \<not> has (white s) p)"

lemma ahead_0 [simp]: "ahead d p 0 = p"
  by (simp add: ahead_def)

lemma ahead_step: "ahead d (step d p) i = ahead d p (Suc i)"
  by (simp add: ahead_def step_def algebra_simps)

lemma ray_iff: "ray mine theirs d q j = ((\<forall>i<j. theirs (ahead d q i)) \<and> mine (ahead d q j))"
proof (induction j arbitrary: q)
  case 0
  then show ?case by simp
next
  case (Suc j)
  show ?case by (simp add: Suc.IH ahead_step All_less_Suc2)
qed

lemma ball_from_1: "(\<forall>i\<in>{Suc 0..j}. Q i) = (\<forall>i<j. Q (Suc i))"
proof safe
  fix i assume "\<forall>i\<in>{Suc 0..j}. Q i" "i < j"
  then show "Q (Suc i)" by simp
next
  fix i assume a: "\<forall>i<j. Q (Suc i)" "i \<in> {Suc 0..j}"
  then have "i - 1 < j" by auto
  with a have "Q (Suc (i - 1))" by blast
  then show "Q i" using a(2) by simp
qed

lemma ex_from_1: "(\<exists>j. 1 \<le> j \<and> Q j) = (\<exists>i. Q (Suc i))"
proof safe
  fix j :: nat assume "1 \<le> j" "Q j"
  then have "Q (Suc (j - 1))" by simp
  then show "\<exists>i. Q (Suc i)" by blast
next
  fix i assume "Q (Suc i)"
  then show "\<exists>j\<ge>1. Q j" by (intro exI[of _ "Suc i"]) simp
qed

lemma captures_ray: "captures mine theirs p d j = (1 \<le> j \<and> ray mine theirs d (step d p) j)"
  by (simp add: captures_def ray_iff ahead_step ball_from_1)

lemma ex_direction: "(\<exists>k\<in>set directions. P (opposite k)) = (\<exists>d. P d)"
proof
  assume "\<exists>d. P d"
  then obtain d where "P d" ..
  then have "P (opposite (opposite d))" by simp
  then show "\<exists>k\<in>set directions. P (opposite k)" using directions_all by blast
qed blast

lemma legal_cell_ray:
  "legal_cell mine theirs free p =
     (free p \<and> (\<exists>k\<in>set directions. \<exists>i. ray mine theirs (opposite k) (step (opposite k) p) (Suc i)))"
  unfolding legal_cell_def captures_ray ex_from_1
    ex_direction[of "\<lambda>d. \<exists>i. ray mine theirs d (step d p) (Suc i)"] ..

theorem has_legal_moves_bb:
  assumes "valid_bitboard s" "bb_max env = 0xFFFFFFFFFFFFFFFF"
  shows "has (StateEnvBitBoard_legal_moves_helper env s) p = legal_cell (mine_bb s) (theirs_bb s) (empty_bb s) p"
    and "in_range64 (StateEnvBitBoard_legal_moves_helper env s)"
proof -
  let ?P = "board_of s (player s)"
  let ?O = "board_of s (if player s \<noteq> 0 then 0 else 1)"
  have PO: "?P OR ?O = black s OR white s" using assms(1)
    by (auto simp: valid_bitboard_def board_of_def or.commute)
  have r: "in_range64 (black s OR white s)" using assms(1)
    by (simp add: valid_bitboard_def in_range64_or)
  have e: "has (bb_max env - (?P OR ?O)) p = empty_bb s p"
    unfolding PO assms(2) using has_max_minus[OF r, of "fst p" "snd p"] by (simp add: empty_bb_def)
  show "has (StateEnvBitBoard_legal_moves_helper env s) p = legal_cell (mine_bb s) (theirs_bb s) (empty_bb s) p"
    by (simp add: StateEnvBitBoard_legal_moves_helper_def Let_def has_foldl_legal_sweep e legal_cell_ray
        mine_bb_def theirs_bb_def del: ray.simps)
  show "in_range64 (StateEnvBitBoard_legal_moves_helper env s)"
    by (simp add: StateEnvBitBoard_legal_moves_helper_def Let_def in_range64_foldl_legal_sweep)
qed

definition cell_mask :: "int \<times> int \<Rightarrow> int" where
  "cell_mask q = 2 ^ cell_bit (fst q) (snd q)"

lemma cell_bit_inj:
  assumes "on_board 8 r c" "on_board 8 r' c'" "cell_bit r c = cell_bit r' c'"
  shows "r = r' \<and> c = c'"
proof -
  have "63 - 8 * r - c = 63 - 8 * r' - c'"
    using assms unfolding cell_bit_def on_board_def by (simp add: nat_eq_iff)
  then show ?thesis using assms(1,2) unfolding on_board_def by presburger
qed

lemma cell_of_bit:
  assumes "n < 64"
  shows "\<exists>r c. on_board 8 r c \<and> cell_bit r c = n"
proof (intro exI conjI)
  show "on_board 8 (7 - int (n div 8)) (7 - int (n mod 8))"
    using assms unfolding on_board_def by auto
  show "cell_bit (7 - int (n div 8)) (7 - int (n mod 8)) = n"
    unfolding cell_bit_def by (simp add: nat_eq_iff) presburger
qed

lemma has_eqI:
  assumes "in_range64 x" "in_range64 y" "\<And>p. has x p = has y p"
  shows "x = y"
proof (rule bit_eqI)
  fix n
  show "bit x n = bit y n"
  proof (cases "n < 64")
    case True
    then obtain r c where "on_board 8 r c" "cell_bit r c = n" using cell_of_bit by blast
    then show ?thesis using assms(3)[of "(r, c)"] by (simp add: has_def)
  next
    case False
    then show ?thesis using bit_lt_64 assms(1,2) by blast
  qed
qed

lemma has_nonzero: "in_range64 x \<Longrightarrow> (x \<noteq> 0) = (\<exists>p. has x p)"
  using has_eqI[of x 0] by auto

lemma in_range64_cell_mask:
  assumes "on_board 8 (fst q) (snd q)"
  shows "in_range64 (cell_mask q)"
proof -
  have "(2::int) ^ cell_bit (fst q) (snd q) < 2 ^ 64"
    using cell_bit_lt[OF assms] by (intro power_strict_increasing) simp_all
  then show ?thesis by (simp add: cell_mask_def in_range64_def)
qed

lemma has_cell_mask: "on_board 8 (fst q) (snd q) \<Longrightarrow> has (cell_mask q) p = (p = q)"
  using cell_bit_inj[of "fst p" "snd p" "fst q" "snd q"]
  by (cases p; cases q) (auto simp: has_def cell_mask_def bit_exp_iff)

section \<open>The start position\<close>

definition start_dense :: ndarray3 where
  "start_dense =
     [[[0, 0, 1], [0, 0, 1], [0, 0, 1], [0, 0, 1], [0, 0, 1], [0, 0, 1], [0, 0, 1], [0, 0, 1]],
      [[0, 0, 1], [0, 0, 1], [0, 0, 1], [0, 0, 1], [0, 0, 1], [0, 0, 1], [0, 0, 1], [0, 0, 1]],
      [[0, 0, 1], [0, 0, 1], [0, 0, 1], [0, 0, 1], [0, 0, 1], [0, 0, 1], [0, 0, 1], [0, 0, 1]],
      [[0, 0, 1], [0, 0, 1], [0, 0, 1], [0, 1, 1], [1, 0, 1], [0, 0, 1], [0, 0, 1], [0, 0, 1]],
      [[0, 0, 1], [0, 0, 1], [0, 0, 1], [1, 0, 1], [0, 1, 1], [0, 0, 1], [0, 0, 1], [0, 0, 1]],
      [[0, 0, 1], [0, 0, 1], [0, 0, 1], [0, 0, 1], [0, 0, 1], [0, 0, 1], [0, 0, 1], [0, 0, 1]],
      [[0, 0, 1], [0, 0, 1], [0, 0, 1], [0, 0, 1], [0, 0, 1], [0, 0, 1], [0, 0, 1], [0, 0, 1]],
      [[0, 0, 1], [0, 0, 1], [0, 0, 1], [0, 0, 1], [0, 0, 1], [0, 0, 1], [0, 0, 1], [0, 0, 1]]]"

definition start_moves :: ndarray2 where
  "start_moves =
     [[0, 0, 0, 0, 0, 0, 0, 0],
      [0, 0, 0, 0, 0, 0, 0, 0],
      [0, 0, 0, 0, 1, 0, 0, 0],
      [0, 0, 0, 0, 0, 1, 0, 0],
      [0, 0, 1, 0, 0, 0, 0, 0],
      [0, 0, 0, 1, 0, 0, 0, 0],
      [0, 0, 0, 0, 0, 0, 0, 0],
      [0, 0, 0, 0, 0, 0, 0, 0]]"

lemma StateEnv_reset_8: "StateEnv_reset \<lparr>se_size = 8\<rparr> = Inr (start_dense, start_moves, 1)"
  by code_simp

lemma StateEnvBitBoard_reset_8:
  "StateEnvBitBoard_reset \<lparr>bb_size = 8, bb_max = 0xFFFFFFFFFFFFFFFF\<rparr> =
     (\<lparr>black = 34628173824, white = 68853694464, player = 1\<rparr>, 8813810810880, 1)"
  by code_simp

lemma start_counts:
  "StateEnv_count_coins \<lparr>se_size = 8\<rparr> start_dense = (2, 2)"
  "sum2 start_moves = 4"
  "StateEnvBitBoard_count_coins \<lparr>bb_size = 8, bb_max = 0xFFFFFFFFFFFFFFFF\<rparr>
     \<lparr>black = 34628173824, white = 68853694464, player = 1\<rparr> = Some (2, 2)"
  "count_loop 8813810810880 0 = Some 4"
  by code_simp+

lemma start_converted:
  "\<exists>cv. StateConverter_init 8 = Inr cv \<and>
     StateConverter_convert cv (Ndarray3d start_dense) ''ndarray3d'' ''bitboard'' =
       Inr (Bitboard \<lparr>black = 34628173824, white = 68853694464, player = 1\<rparr>) \<and>
     StateConverter_convert cv (Ndarray start_moves) ''ndarray'' ''bitboard_single'' =
       Inr (Bitboard_single 8813810810880)"
proof -
  have "case StateConverter_init 8 of
          Inl e \<Rightarrow> False
        | Inr cv \<Rightarrow>
            StateConverter_convert cv (Ndarray3d start_dense) ''ndarray3d'' ''bitboard'' =
              Inr (Bitboard \<lparr>black = 34628173824, white = 68853694464, player = 1\<rparr>) \<and>
            StateConverter_convert cv (Ndarray start_moves) ''ndarray'' ''bitboard_single'' =
              Inr (Bitboard_single 8813810810880)"
    by code_simp
  then show ?thesis by (cases "StateConverter_init 8") auto
qed

text \<open>
  Claim C5.  On an 8 by 8 board both \<open>reset\<close> functions return the same start position:
  the dense state has white discs on (3,3) and (4,4), black discs on (3,4) and (4,3) and no
  other disc (2 per side), white (player 1) is to move, and the legal moves are the 4
  cells (2,4), (3,5), (4,2) and (5,3); the bitboard state and its legal moves are the
  conversions of the dense ones, with 2 discs per side and 4 legal moves as well.
\<close>

theorem reset_start_position:
  "\<exists>env envb cv s lm b lmb.
     StateEnv_init 8 = Inr env \<and> StateEnvBitBoard_init 8 = Inr envb \<and>
     StateConverter_init 8 = Inr cv \<and>
     StateEnv_reset env = Inr (s, lm, 1) \<and> StateEnvBitBoard_reset envb = (b, lmb, 1) \<and>
     StateConverter_convert cv (Ndarray3d s) ''ndarray3d'' ''bitboard'' = Inr (Bitboard b) \<and>
     StateConverter_convert cv (Ndarray lm) ''ndarray'' ''bitboard_single'' =
       Inr (Bitboard_single lmb) \<and>
     length s = 8 \<and>
     s ! 3 ! 3 = [0, 1, 1] \<and> s ! 4 ! 4 = [0, 1, 1] \<and>
     s ! 3 ! 4 = [1, 0, 1] \<and> s ! 4 ! 3 = [1, 0, 1] \<and>
     StateEnv_count_coins env s = (2, 2) \<and> s ! 0 ! 0 ! 2 = 1 \<and>
     lm ! 2 ! 4 = 1 \<and> lm ! 3 ! 5 = 1 \<and> lm ! 4 ! 2 = 1 \<and> lm ! 5 ! 3 = 1 \<and> sum2 lm = 4 \<and>
     player b = 1 \<and> StateEnvBitBoard_count_coins envb b = Some (2, 2) \<and>
     count_loop lmb 0 = Some 4"
proof -
  obtain cv where cv: "StateConverter_init 8 = Inr cv"
    "StateConverter_convert cv (Ndarray3d start_dense) ''ndarray3d'' ''bitboard'' =
       Inr (Bitboard \<lparr>black = 34628173824, white = 68853694464, player = 1\<rparr>)"
    "StateConverter_convert cv (Ndarray start_moves) ''ndarray'' ''bitboard_single'' =
       Inr (Bitboard_single 8813810810880)"
    using start_converted by blast
  have i: "StateEnv_init 8 = Inr \<lparr>se_size = 8\<rparr>"
    "StateEnvBitBoard_init 8 = Inr \<lparr>bb_size = 8, bb_max = 0xFFFFFFFFFFFFFFFF\<rparr>"
    by (simp_all add: StateEnv_init_def StateEnvBitBoard_init_def)
  have cells: "length start_dense = 8"
    "start_dense ! 3 ! 3 = [0, 1, 1]" "start_dense ! 4 ! 4 = [0, 1, 1]"
    "start_dense ! 3 ! 4 = [1, 0, 1]" "start_dense ! 4 ! 3 = [1, 0, 1]"
    "start_dense ! 0 ! 0 ! 2 = 1"
    "start_moves ! 2 ! 4 = 1" "start_moves ! 3 ! 5 = 1"
    "start_moves ! 4 ! 2 = 1" "start_moves ! 5 ! 3 = 1"
    by (simp_all add: start_dense_def start_moves_def)
  show ?thesis
    apply (intro exI conjI)
                        apply (rule i(1))
                        apply (rule i(2))
                        apply (rule cv(1))
                        apply (rule StateEnv_reset_8)
                        apply (rule StateEnvBitBoard_reset_8)
                        apply (rule cv(2))
                        apply (rule cv(3))
                        apply (rule cells start_counts | simp)+
    done
qed

end
